theory Spec2Isabelle
  imports Complex_Main "HOL-Library.Product_Lexorder" "HOL-Library.Multiset"
begin

section \<open>Carbonite: event ledger and aggregation consistency\<close>

text \<open>
  The repository keeps per-user and global running totals of emissions saved (in lbs) in
  PostgreSQL tables that are maintained by PL/pgSQL triggers and functions, and reads and
  writes them from TypeScript services.  It contains several alternative schemas; each one
  is embedded below from its own source file:
  \<^item> the verification schema (\<open>global_sync_trigger_function\<close>,
    \<open>sync_global_emissions_from_user_stats\<close>, \<open>get_leaderboard\<close>, \<open>hourly_sync_check\<close>);
  \<^item> the migrations \<open>20251115050327_20251115_add_action_sync_triggers.sql\<close> and
    \<open>20251115053008_complete_app_setup.sql\<close>;
  \<^item> \<open>FINAL_SIMPLE_SOLUTION.sql\<close> (\<open>update_emission_totals\<close>, \<open>backfill_totals\<close>,
    \<open>get_leaderboard_simple\<close>);
  \<^item> the pseudocode of \<open>log_emission_atomic\<close>;
  \<^item> the TypeScript services \<open>logEmission\<close> and \<open>logActionFullSpec\<close>.

  A table is the list of its rows in storage order, a row is a record of the columns the
  functions read or write, a nullable column is an \<open>option\<close>, \<open>NOW()\<close> is a parameter.
\<close>

subsection \<open>SQL values\<close>

type_synonym uuid = string
type_synonym timestamptz = int
type_synonym numeric = rat

text \<open>
  A \<open>NUMERIC\<close> value is an exact decimal, here a rational number.  Storing a value in a
  \<open>NUMERIC(p,d)\<close> column or variable, and \<open>ROUND(x, d)\<close>, round to \<open>d\<close> fractional
  digits, ties away from zero.  The precision bound \<open>p\<close> (an overflow aborts the statement)
  is not modelled.
\<close>

definition pg_round :: "nat \<Rightarrow> numeric \<Rightarrow> numeric" where
  "pg_round d x =
     (if x < 0 then - (of_int \<lfloor>(- x) * 10 ^ d + 1 / 2\<rfloor> / 10 ^ d)
      else of_int \<lfloor>x * 10 ^ d + 1 / 2\<rfloor> / 10 ^ d)"

datatype sql_error = unique_violation | foreign_key_violation | check_violation
  | invalid_row_count_in_limit_clause

subsection \<open>The verification schema\<close>

text \<open>
  Tables \<open>users\<close>, \<open>user_actions\<close>, \<open>user_stats\<close> and the single row of
  \<open>global_emissions\<close> (\<open>CHECK (id = 1)\<close>, inserted by the schema script and never
  deleted).  \<open>sync_check_log\<close> is the audit table named by \<open>hourly_sync_check\<close>.
\<close>

record user_row =
  user_id :: uuid
  username :: "string option"

record user_action =
  action_id :: uuid
  ua_user_id :: uuid
  emissions_saved_lbs :: numeric
  verified :: bool
  created_at :: timestamptz
  verified_at :: "timestamptz option"

record user_stat =
  us_user_id :: uuid
  total_emissions_lbs :: numeric
  action_count :: int
  last_updated :: timestamptz

record global_emissions_row =
  total_lbs_saved :: numeric
  total_actions :: int
  ge_last_updated :: timestamptz

record sync_check_log_row =
  scl_timestamp :: timestamptz
  scl_was_in_sync :: bool
  scl_user_stats_sum :: numeric
  scl_global_total :: numeric
  scl_discrepancy :: numeric
  scl_fixed :: bool

record db =
  users :: "user_row list"
  user_actions :: "user_action list"
  user_stats :: "user_stat list"
  global_emissions :: global_emissions_row
  sync_check_log :: "sync_check_log_row list"

text \<open>
  \<open>INSERT INTO user_stats (user_id, total_emissions_lbs, action_count, last_updated)
  VALUES (u, x, 1, now) ON CONFLICT (user_id) DO UPDATE SET total_emissions_lbs =
  user_stats.total_emissions_lbs + x, action_count = user_stats.action_count + 1,
  last_updated = now\<close>: the row with the key is updated, or a new row is appended.
\<close>

fun upsert_user_stats :: "uuid \<Rightarrow> numeric \<Rightarrow> timestamptz \<Rightarrow> user_stat list \<Rightarrow> user_stat list" where
  "upsert_user_stats u x now [] =
     [\<lparr>us_user_id = u, total_emissions_lbs = x, action_count = 1, last_updated = now\<rparr>]"
| "upsert_user_stats u x now (r # rs) =
     (if us_user_id r = u
      then r\<lparr>total_emissions_lbs := total_emissions_lbs r + x,
             action_count := action_count r + 1,
             last_updated := now\<rparr> # rs
      else r # upsert_user_stats u x now rs)"

definition global_sync_trigger_function ::
  "timestamptz \<Rightarrow> user_action \<Rightarrow> user_action \<Rightarrow> db \<Rightarrow> db" where
  "global_sync_trigger_function now OLD NEW d =
     (if verified NEW \<and> \<not> verified OLD then
        d\<lparr>user_stats :=
             upsert_user_stats (ua_user_id NEW) (emissions_saved_lbs NEW) now (user_stats d),
          global_emissions :=
             (global_emissions d)
               \<lparr>total_lbs_saved := total_lbs_saved (global_emissions d) + emissions_saved_lbs NEW,
                total_actions := total_actions (global_emissions d) + 1,
                ge_last_updated := now\<rparr>\<rparr>
      else d)"

text \<open>
  \<open>INSERT INTO user_actions\<close>: the primary key, the foreign key to \<open>users\<close> and
  \<open>CHECK (emissions_saved_lbs >= 0)\<close> abort the statement; the column is
  \<open>NUMERIC(14,4)\<close>.  This schema has no trigger on insertion.
\<close>

definition insert_user_action :: "user_action \<Rightarrow> db \<Rightarrow> sql_error + db" where
  "insert_user_action a d =
     (if action_id a \<in> set (map action_id (user_actions d)) then Inl unique_violation
      else if ua_user_id a \<notin> set (map user_id (users d)) then Inl foreign_key_violation
      else if pg_round 4 (emissions_saved_lbs a) < 0 then Inl check_violation
      else Inr (d\<lparr>user_actions :=
                    user_actions d @ [a\<lparr>emissions_saved_lbs := pg_round 4 (emissions_saved_lbs a)\<rparr>]\<rparr>))"

text \<open>
  \<open>UPDATE user_actions SET verified = TRUE, verified_at = now WHERE action_id = aid\<close>,
  followed by the row trigger \<open>global_sync_trigger\<close> (\<open>AFTER UPDATE ... FOR EACH ROW\<close>)
  for every row the statement changed.
\<close>

definition set_verified :: "timestamptz \<Rightarrow> user_action \<Rightarrow> user_action" where
  "set_verified now a = a\<lparr>verified := True, verified_at := Some now\<rparr>"

definition verify_user_action :: "timestamptz \<Rightarrow> uuid \<Rightarrow> db \<Rightarrow> db" where
  "verify_user_action now aid d =
     fold (\<lambda>OLD. global_sync_trigger_function now OLD (set_verified now OLD))
       (filter (\<lambda>a. action_id a = aid) (user_actions d))
       (d\<lparr>user_actions :=
            map (\<lambda>a. if action_id a = aid then set_verified now a else a) (user_actions d)\<rparr>)"

definition sum_user_stats :: "db \<Rightarrow> numeric" where
  "sum_user_stats d = sum_list (map total_emissions_lbs (user_stats d))"

text \<open>
  \<open>sync_global_emissions_from_user_stats()\<close> returns one row
  \<open>(was_in_sync, user_stats_sum, global_total, fixed)\<close>.  \<open>user_stats.total_emissions_lbs\<close>
  and \<open>global_emissions.total_lbs_saved\<close> both have four fractional digits, so the sum is
  stored as it is.
\<close>

record sync_result =
  was_in_sync :: bool
  user_stats_sum :: numeric
  global_total :: numeric
  fixed :: bool

definition sync_global_emissions_from_user_stats :: "timestamptz \<Rightarrow> db \<Rightarrow> sync_result \<times> db" where
  "sync_global_emissions_from_user_stats now d =
     (let stats_sum = sum_user_stats d;
          global_val = total_lbs_saved (global_emissions d);
          is_synced = (stats_sum = global_val);
          d' = (if \<not> is_synced
                then d\<lparr>global_emissions :=
                        (global_emissions d)\<lparr>total_lbs_saved := stats_sum, ge_last_updated := now\<rparr>\<rparr>
                else d)
      in (\<lparr>was_in_sync = is_synced, user_stats_sum = stats_sum,
            global_total = global_val, fixed = \<not> is_synced\<rparr>, d'))"

text \<open>
  \<open>hourly_sync_check()\<close> returns a JSON object and raises a warning on a mismatch.  Its
  \<open>INSERT INTO sync_check_log\<close> is commented out in the source, so the function writes
  nothing but what \<open>sync_global_emissions_from_user_stats\<close> writes.
\<close>

record sync_check_json =
  js_timestamp :: timestamptz
  js_was_in_sync :: bool
  js_user_stats_sum :: numeric
  js_global_total :: numeric
  js_discrepancy :: numeric
  js_fixed :: bool
  js_in_sync :: bool
  js_alert_channel :: string

record sync_warning =
  w_user_stats_sum :: numeric
  w_global_total :: numeric
  w_discrepancy :: numeric
  w_fixed :: bool

definition hourly_sync_check :: "timestamptz \<Rightarrow> db \<Rightarrow> (sync_check_json \<times> sync_warning list) \<times> db" where
  "hourly_sync_check now d =
     (let (check_result, d') = sync_global_emissions_from_user_stats now d;
          discrepancy = \<bar>user_stats_sum check_result - global_total check_result\<bar>;
          result = \<lparr>js_timestamp = now,
                    js_was_in_sync = was_in_sync check_result,
                    js_user_stats_sum = pg_round 2 (user_stats_sum check_result),
                    js_global_total = pg_round 2 (global_total check_result),
                    js_discrepancy = pg_round 2 discrepancy,
                    js_fixed = fixed check_result,
                    js_in_sync = (pg_round 2 (user_stats_sum check_result)
                                    = pg_round 2 (global_total check_result)),
                    js_alert_channel = ''System admin or monitoring dashboard''\<rparr>;
          raised = (if \<not> was_in_sync check_result
                    then [\<lparr>w_user_stats_sum = pg_round 2 (user_stats_sum check_result),
                           w_global_total = pg_round 2 (global_total check_result),
                           w_discrepancy = pg_round 2 discrepancy,
                           w_fixed = fixed check_result\<rparr>]
                    else [])
      in ((result, raised), d'))"

text \<open>
  \<open>get_leaderboard(limit_count)\<close>.  The common table expression \<open>ranked_users\<close> joins
  \<open>user_stats\<close> with \<open>users\<close> and keeps the rows with a positive total; the tie-breaking
  column is the latest \<open>verified_at\<close> of the user's verified actions, or \<open>last_updated\<close>.
\<close>

record ranked_user =
  ru_user_id :: uuid
  ru_username :: "string option"
  ru_total_emissions_lbs :: numeric
  ru_action_count :: int
  ru_last_update_timestamp :: timestamptz
  last_verified_action_at :: timestamptz

definition max_verified_at :: "uuid \<Rightarrow> user_action list \<Rightarrow> timestamptz option" where
  "max_verified_at u acts =
     (case List.map_filter
             (\<lambda>a. if ua_user_id a = u \<and> verified a then verified_at a else None) acts of
        [] \<Rightarrow> None
      | t # ts \<Rightarrow> Some (fold max ts t))"

definition ranked_users :: "db \<Rightarrow> ranked_user list" where
  "ranked_users d =
     concat (map (\<lambda>us.
       map (\<lambda>u. \<lparr>ru_user_id = us_user_id us,
                  ru_username = username u,
                  ru_total_emissions_lbs = total_emissions_lbs us,
                  ru_action_count = action_count us,
                  ru_last_update_timestamp = last_updated us,
                  last_verified_action_at =
                    (case max_verified_at (us_user_id us) (user_actions d) of
                       Some t \<Rightarrow> t | None \<Rightarrow> last_updated us)\<rparr>)
           (filter (\<lambda>u. user_id u = us_user_id us) (users d)))
       (filter (\<lambda>us. total_emissions_lbs us > 0) (user_stats d)))"

text \<open>
  \<open>ORDER BY total_emissions_lbs DESC, last_verified_action_at DESC\<close>: the rows are sorted
  on the pair of negated columns, compared lexicographically.  SQL leaves the order of rows
  that agree on both columns open; the model keeps them in the order of the scan.
  \<open>ROW_NUMBER()\<close> over the same ordering numbers the sorted rows from 1, \<open>LIMIT\<close> keeps
  the first \<open>limit_count\<close> of them and rejects a negative count.
\<close>

definition order_by_key :: "ranked_user \<Rightarrow> numeric \<times> timestamptz" where
  "order_by_key r = (- ru_total_emissions_lbs r, - last_verified_action_at r)"

record leaderboard_entry =
  rank :: int
  le_user_id :: uuid
  le_username :: "string option"
  le_total_emissions_lbs :: numeric
  le_action_count :: int
  le_last_update_timestamp :: timestamptz

definition leaderboard_row :: "nat \<times> ranked_user \<Rightarrow> leaderboard_entry" where
  "leaderboard_row p =
     \<lparr>rank = int (fst p),
      le_user_id = ru_user_id (snd p),
      le_username = ru_username (snd p),
      le_total_emissions_lbs = pg_round 2 (ru_total_emissions_lbs (snd p)),
      le_action_count = ru_action_count (snd p),
      le_last_update_timestamp = ru_last_update_timestamp (snd p)\<rparr>"

definition ordered_ranked_users :: "db \<Rightarrow> ranked_user list" where
  "ordered_ranked_users d = sort_key order_by_key (ranked_users d)"

definition get_leaderboard :: "int \<Rightarrow> db \<Rightarrow> sql_error + leaderboard_entry list" where
  "get_leaderboard limit_count d =
     (if limit_count < 0 then Inl invalid_row_count_in_limit_clause
      else Inr (take (nat limit_count)
                  (map leaderboard_row (enumerate 1 (ordered_ranked_users d)))))"


subsection \<open>Migration \<open>20251115050327_20251115_add_action_sync_triggers.sql\<close>\<close>

text \<open>
  The migration adds two triggers to the tables of the verification schema, whose
  \<open>user_stats.total_emissions_lbs\<close> an earlier migration renamed to \<open>total_lbs\<close> and whose
  \<open>user_actions\<close> got the nullable column \<open>custom_emissions_saved\<close>:
  \<open>trigger_sync_user_stats_on_action_insert AFTER INSERT ON user_actions\<close> and
  \<open>trigger_sync_global_emissions_on_stats_update AFTER UPDATE ON user_stats\<close>.
  The constraints of \<open>user_actions\<close> are left out: the rows below satisfy them.
\<close>

record m_user_action =
  m_action_id :: uuid
  m_user_id :: uuid
  m_custom_emissions_saved :: "numeric option"
  m_emissions_saved_lbs :: "numeric option"
  m_verified :: bool

record m_user_stat =
  ms_user_id :: uuid
  ms_total_lbs :: numeric
  ms_action_count :: int
  ms_last_updated :: timestamptz

record m_global_emissions_row =
  mg_total_lbs_saved :: numeric
  mg_total_actions :: int
  mg_last_updated :: timestamptz

record mdb =
  m_user_actions :: "m_user_action list"
  m_user_stats :: "m_user_stat list"
  m_global_emissions :: "m_global_emissions_row option"

text \<open>
  \<open>sync_global_emissions_on_stats_update()\<close>, the body of the \<open>AFTER UPDATE\<close> row trigger
  on \<open>user_stats\<close>: an upsert of the single row of \<open>global_emissions\<close>.  \<open>OLD\<close> is a
  row of \<open>user_stats\<close>, whose \<open>total_lbs\<close> is \<open>NOT NULL\<close>, so
  \<open>COALESCE(OLD.total_lbs, 0)\<close> is \<open>OLD.total_lbs\<close>.
\<close>

definition sync_global_emissions_on_stats_update ::
  "timestamptz \<Rightarrow> m_user_stat \<Rightarrow> m_user_stat \<Rightarrow> mdb \<Rightarrow> mdb" where
  "sync_global_emissions_on_stats_update now OLD NEW d =
     (let v_diff = ms_total_lbs NEW - ms_total_lbs OLD
      in d\<lparr>m_global_emissions :=
             (case m_global_emissions d of
                None \<Rightarrow> Some \<lparr>mg_total_lbs_saved = v_diff, mg_total_actions = 0,
                               mg_last_updated = now\<rparr>
              | Some g \<Rightarrow> Some (g\<lparr>mg_total_lbs_saved := mg_total_lbs_saved g + v_diff,
                                  mg_last_updated := now\<rparr>))\<rparr>)"

text \<open>
  The upsert of \<open>sync_user_stats_on_action_insert()\<close>.  \<open>INSERT ... ON CONFLICT DO UPDATE\<close>
  either inserts a row or updates the conflicting one; only in the second case has a row
  of \<open>user_stats\<close> been updated, and the pair of its old and new value is returned for the
  \<open>AFTER UPDATE\<close> trigger.
\<close>

fun m_upsert_user_stats ::
  "uuid \<Rightarrow> numeric \<Rightarrow> timestamptz \<Rightarrow> m_user_stat list
     \<Rightarrow> m_user_stat list \<times> (m_user_stat \<times> m_user_stat) option" where
  "m_upsert_user_stats u x now [] =
     ([\<lparr>ms_user_id = u, ms_total_lbs = x, ms_action_count = 1, ms_last_updated = now\<rparr>], None)"
| "m_upsert_user_stats u x now (r # rs) =
     (if ms_user_id r = u
      then (let r' = r\<lparr>ms_total_lbs := ms_total_lbs r + x,
                        ms_action_count := ms_action_count r + 1,
                        ms_last_updated := now\<rparr>
            in (r' # rs, Some (r, r')))
      else (let (rs', updated) = m_upsert_user_stats u x now rs in (r # rs', updated)))"

definition coalesce3 :: "numeric option \<Rightarrow> numeric option \<Rightarrow> numeric \<Rightarrow> numeric" where
  "coalesce3 a b c = (case a of Some x \<Rightarrow> x | None \<Rightarrow> (case b of Some y \<Rightarrow> y | None \<Rightarrow> c))"

definition sync_user_stats_on_action_insert ::
  "timestamptz \<Rightarrow> m_user_action \<Rightarrow> mdb \<Rightarrow> mdb \<times> (m_user_stat \<times> m_user_stat) option" where
  "sync_user_stats_on_action_insert now NEW d =
     (let (stats', updated) =
            m_upsert_user_stats (m_user_id NEW)
              (coalesce3 (m_custom_emissions_saved NEW) (m_emissions_saved_lbs NEW) 0)
              now (m_user_stats d)
      in (d\<lparr>m_user_stats := stats'\<rparr>, updated))"

text \<open>
  \<open>CREATE TRIGGER trigger_sync_global_emissions_on_stats_update AFTER UPDATE ON user_stats
  FOR EACH ROW\<close>: the trigger function runs for a row that a statement has updated, and
  not for a row that it has inserted.
\<close>

definition trigger_sync_global_emissions_on_stats_update ::
  "timestamptz \<Rightarrow> (m_user_stat \<times> m_user_stat) option \<Rightarrow> mdb \<Rightarrow> mdb" where
  "trigger_sync_global_emissions_on_stats_update now updated d =
     (case updated of
        None \<Rightarrow> d
      | Some (OLD, NEW) \<Rightarrow> sync_global_emissions_on_stats_update now OLD NEW d)"

text \<open>
  \<open>INSERT INTO user_actions\<close> with \<open>trigger_sync_user_stats_on_action_insert AFTER
  INSERT ON user_actions FOR EACH ROW\<close>, whose statement on \<open>user_stats\<close> is followed by
  the trigger of that table.
\<close>

definition m_insert_user_action :: "timestamptz \<Rightarrow> m_user_action \<Rightarrow> mdb \<Rightarrow> mdb" where
  "m_insert_user_action now a d =
     (let (d', updated) =
            sync_user_stats_on_action_insert now a (d\<lparr>m_user_actions := m_user_actions d @ [a]\<rparr>)
      in trigger_sync_global_emissions_on_stats_update now updated d')"

definition m_sum_user_stats :: "mdb \<Rightarrow> numeric" where
  "m_sum_user_stats d = sum_list (map ms_total_lbs (m_user_stats d))"

definition m_global_total :: "mdb \<Rightarrow> numeric option" where
  "m_global_total d = map_option mg_total_lbs_saved (m_global_emissions d)"

text \<open>The state the migration leaves behind: no statistics, the global row at 0.\<close>

definition m_initial :: mdb where
  "m_initial = \<lparr>m_user_actions = [], m_user_stats = [],
                m_global_emissions =
                  Some \<lparr>mg_total_lbs_saved = 0, mg_total_actions = 0, mg_last_updated = 0\<rparr>\<rparr>"

subsection \<open>\<open>FINAL_SIMPLE_SOLUTION.sql\<close>\<close>

text \<open>
  \<open>user_actions\<close> and \<open>action_templates\<close> are the tables of the application schema;
  \<open>user_stats.total_lbs\<close> and \<open>global_emissions.total_lbs\<close> are \<open>NUMERIC(18,6) NOT NULL\<close>,
  the compatibility columns \<open>total_emissions_lbs\<close> and \<open>total_lbs_saved\<close> are nullable.
\<close>

record f_user_action =
  f_user_id :: uuid
  custom_emissions_saved :: "numeric option"
  action_template_id :: "uuid option"

record action_template =
  at_id :: uuid
  emissions_saved :: numeric

record f_user_stat =
  fs_user_id :: uuid
  total_lbs :: numeric
  fs_total_emissions_lbs :: "numeric option"
  fs_last_updated :: timestamptz

record f_global_emissions_row =
  fg_total_lbs :: numeric
  fg_total_lbs_saved :: "numeric option"
  fg_last_updated :: timestamptz

record profile =
  p_id :: uuid
  p_username :: "string option"
  p_full_name :: "string option"

record fdb =
  f_user_actions :: "f_user_action list"
  action_templates :: "action_template list"
  profiles :: "profile list"
  f_user_stats :: "f_user_stat list"
  f_global_emissions :: f_global_emissions_row

text \<open>
  \<open>COALESCE((SELECT emissions_saved FROM action_templates WHERE id = t), 0) * 2.20462\<close>:
  the scalar subquery is \<open>NULL\<close> when no template has the id.
\<close>

definition template_lbs :: "action_template list \<Rightarrow> uuid \<Rightarrow> numeric" where
  "template_lbs ts t =
     (case filter (\<lambda>r. at_id r = t) ts of [] \<Rightarrow> 0 | r # _ \<Rightarrow> emissions_saved r) * (220462 / 100000)"

text \<open>
  The quantity of an action as \<open>update_emission_totals()\<close> computes it into its variable
  \<open>v_lbs NUMERIC(18,6)\<close>: every assignment rounds to six fractional digits.
\<close>

definition v_lbs :: "action_template list \<Rightarrow> f_user_action \<Rightarrow> numeric" where
  "v_lbs ts NEW =
     (case custom_emissions_saved NEW of
        Some c \<Rightarrow>
          (if c > 0 then pg_round 6 c
           else (case action_template_id NEW of
                   Some t \<Rightarrow> pg_round 6 (template_lbs ts t) | None \<Rightarrow> 0))
      | None \<Rightarrow>
          (case action_template_id NEW of
             Some t \<Rightarrow> pg_round 6 (template_lbs ts t) | None \<Rightarrow> 0))"

fun f_upsert_user_stats :: "uuid \<Rightarrow> numeric \<Rightarrow> timestamptz \<Rightarrow> f_user_stat list \<Rightarrow> f_user_stat list" where
  "f_upsert_user_stats u x now [] =
     [\<lparr>fs_user_id = u, total_lbs = x, fs_total_emissions_lbs = None, fs_last_updated = now\<rparr>]"
| "f_upsert_user_stats u x now (r # rs) =
     (if fs_user_id r = u
      then r\<lparr>total_lbs := total_lbs r + x, fs_last_updated := now\<rparr> # rs
      else r # f_upsert_user_stats u x now rs)"

text \<open>
  \<open>UPDATE user_stats SET total_emissions_lbs = total_lbs WHERE p AND
  (total_emissions_lbs IS NULL OR total_emissions_lbs != total_lbs)\<close>.
\<close>

definition copy_total_lbs :: "(f_user_stat \<Rightarrow> bool) \<Rightarrow> f_user_stat list \<Rightarrow> f_user_stat list" where
  "copy_total_lbs p rs =
     map (\<lambda>r. if p r \<and> (case fs_total_emissions_lbs r of None \<Rightarrow> True | Some e \<Rightarrow> e \<noteq> total_lbs r)
               then r\<lparr>fs_total_emissions_lbs := Some (total_lbs r)\<rparr> else r) rs"

definition update_emission_totals :: "timestamptz \<Rightarrow> f_user_action \<Rightarrow> fdb \<Rightarrow> fdb" where
  "update_emission_totals now NEW d =
     (let v = v_lbs (action_templates d) NEW
      in if v > 0 then
           d\<lparr>f_user_stats :=
                copy_total_lbs (\<lambda>r. fs_user_id r = f_user_id NEW)
                  (f_upsert_user_stats (f_user_id NEW) v now (f_user_stats d)),
             f_global_emissions :=
                (f_global_emissions d)
                  \<lparr>fg_total_lbs := fg_total_lbs (f_global_emissions d) + v,
                   fg_total_lbs_saved :=
                     Some ((case fg_total_lbs_saved (f_global_emissions d) of
                              Some s \<Rightarrow> s | None \<Rightarrow> 0) + v),
                   fg_last_updated := now\<rparr>\<rparr>
         else d)"

text \<open>\<open>INSERT INTO user_actions\<close> with \<open>trigger_update_emission_totals AFTER INSERT\<close>.\<close>

definition f_insert_user_action :: "timestamptz \<Rightarrow> f_user_action \<Rightarrow> fdb \<Rightarrow> fdb" where
  "f_insert_user_action now a d =
     update_emission_totals now a (d\<lparr>f_user_actions := f_user_actions d @ [a]\<rparr>)"

text \<open>
  \<open>backfill_totals()\<close>.  The \<open>CASE\<close> expression of the query gives the quantity of an
  action without rounding, \<open>WHERE\<close> keeps the actions with a positive custom value or a
  template, \<open>GROUP BY\<close> sums per user (the groups are taken in the order of the users'
  first rows).  The sum is rounded when it is stored in \<open>total_lbs NUMERIC(18,6)\<close>.
\<close>

definition case_lbs :: "action_template list \<Rightarrow> f_user_action \<Rightarrow> numeric" where
  "case_lbs ts ua =
     (case custom_emissions_saved ua of
        Some c \<Rightarrow>
          (if c > 0 then c
           else (case action_template_id ua of Some t \<Rightarrow> template_lbs ts t | None \<Rightarrow> 0))
      | None \<Rightarrow>
          (case action_template_id ua of Some t \<Rightarrow> template_lbs ts t | None \<Rightarrow> 0))"

definition in_backfill :: "f_user_action \<Rightarrow> bool" where
  "in_backfill ua =
     ((case custom_emissions_saved ua of Some c \<Rightarrow> c > 0 | None \<Rightarrow> False)
      \<or> action_template_id ua \<noteq> None)"

definition user_totals :: "fdb \<Rightarrow> (uuid \<times> numeric) list" where
  "user_totals d =
     (let rows = filter in_backfill (f_user_actions d)
      in map (\<lambda>u. (u, sum_list (map (case_lbs (action_templates d))
                                   (filter (\<lambda>ua. f_user_id ua = u) rows))))
             (remdups (map f_user_id rows)))"

text \<open>
  \<open>INSERT INTO user_stats (user_id, total_lbs, last_updated) VALUES (u, x, now)
  ON CONFLICT (user_id) DO UPDATE SET total_lbs = EXCLUDED.total_lbs, last_updated = now\<close>.
\<close>

fun set_user_total :: "timestamptz \<Rightarrow> uuid \<times> numeric \<Rightarrow> f_user_stat list \<Rightarrow> f_user_stat list" where
  "set_user_total now (u, x) [] =
     [\<lparr>fs_user_id = u, total_lbs = pg_round 6 x, fs_total_emissions_lbs = None,
       fs_last_updated = now\<rparr>]"
| "set_user_total now (u, x) (r # rs) =
     (if fs_user_id r = u
      then r\<lparr>total_lbs := pg_round 6 x, fs_last_updated := now\<rparr> # rs
      else r # set_user_total now (u, x) rs)"

text \<open>
  The first two statements of \<open>backfill_totals()\<close>: the upsert of every row of
  \<open>user_totals\<close>, then the update of the compatibility column in all rows.
\<close>

definition backfill_user_stats :: "timestamptz \<Rightarrow> fdb \<Rightarrow> f_user_stat list" where
  "backfill_user_stats now d =
     copy_total_lbs (\<lambda>r. True) (fold (set_user_total now) (user_totals d) (f_user_stats d))"

definition backfill_totals :: "timestamptz \<Rightarrow> fdb \<Rightarrow> fdb" where
  "backfill_totals now d =
     (let stats = backfill_user_stats now d;
          total = sum_list (map total_lbs stats)
      in d\<lparr>f_user_stats := stats,
           f_global_emissions :=
             (f_global_emissions d)
               \<lparr>fg_total_lbs := total, fg_total_lbs_saved := Some total,
                fg_last_updated := now\<rparr>\<rparr>)"

definition f_sum_user_stats :: "fdb \<Rightarrow> numeric" where
  "f_sum_user_stats d = sum_list (map total_lbs (f_user_stats d))"












subsection \<open>Migration \<open>20251115053008_complete_app_setup.sql\<close>\<close>

text \<open>
  The later migration defines the two trigger functions again, over the application schema,
  and registers the second one \<open>AFTER INSERT OR UPDATE ON user_stats\<close>.  The columns of
  the aggregates have the default 0, and the triggers store no \<open>NULL\<close> in them.
\<close>

record c_user_action =
  c_user_id :: uuid
  c_action_template_id :: "uuid option"
  c_custom_emissions_saved :: "numeric option"

record c_user_stat =
  cs_user_id :: uuid
  cs_total_lbs :: numeric
  cs_total_emissions_lbs :: numeric
  cs_action_count :: int
  cs_last_updated :: timestamptz

record c_global_emissions_row =
  cg_total_lbs :: numeric
  cg_total_lbs_saved :: numeric
  cg_total_actions :: int
  cg_last_updated :: timestamptz

record cdb =
  c_user_actions :: "c_user_action list"
  c_action_templates :: "action_template list"
  c_user_stats :: "c_user_stat list"
  c_global_emissions :: c_global_emissions_row

text \<open>
  \<open>SELECT COALESCE(emissions_saved * 2.20462, 0) INTO v_lbs FROM action_templates WHERE
  id = t\<close>: the variable is \<open>NULL\<close> when no template has the id.
\<close>

definition c_template_lbs :: "action_template list \<Rightarrow> uuid \<Rightarrow> numeric option" where
  "c_template_lbs ts t =
     (case filter (\<lambda>r. at_id r = t) ts of
        [] \<Rightarrow> None
      | r # _ \<Rightarrow> Some (pg_round 6 (emissions_saved r * (220462 / 100000))))"

definition c_v_lbs :: "action_template list \<Rightarrow> c_user_action \<Rightarrow> numeric option" where
  "c_v_lbs ts NEW =
     (case c_custom_emissions_saved NEW of
        Some c \<Rightarrow>
          (if c > 0 then Some (pg_round 6 c)
           else (case c_action_template_id NEW of
                   Some t \<Rightarrow> c_template_lbs ts t | None \<Rightarrow> Some 0))
      | None \<Rightarrow>
          (case c_action_template_id NEW of
             Some t \<Rightarrow> c_template_lbs ts t | None \<Rightarrow> Some 0))"

text \<open>
  The upsert of \<open>user_stats\<close>, with the old row (none when the row is inserted) and the
  new row for the trigger of the table.
\<close>

fun c_upsert_user_stats ::
  "uuid \<Rightarrow> numeric \<Rightarrow> timestamptz \<Rightarrow> c_user_stat list
     \<Rightarrow> c_user_stat list \<times> c_user_stat option \<times> c_user_stat" where
  "c_upsert_user_stats u x now [] =
     (let r = \<lparr>cs_user_id = u, cs_total_lbs = x, cs_total_emissions_lbs = x,
                cs_action_count = 1, cs_last_updated = now\<rparr>
      in ([r], None, r))"
| "c_upsert_user_stats u x now (r # rs) =
     (if cs_user_id r = u
      then (let r' = r\<lparr>cs_total_lbs := cs_total_lbs r + x,
                        cs_total_emissions_lbs := cs_total_emissions_lbs r + x,
                        cs_action_count := cs_action_count r + 1,
                        cs_last_updated := now\<rparr>
            in (r' # rs, Some r, r'))
      else (let (rs', OLD, NEW) = c_upsert_user_stats u x now rs in (r # rs', OLD, NEW)))"

text \<open>
  \<open>sync_global_emissions_on_stats_update()\<close>, here the body of
  \<open>trigger_sync_global_emissions AFTER INSERT OR UPDATE ON user_stats\<close>: \<open>OLD\<close> is
  \<open>NULL\<close> for an inserted row.
\<close>

definition c_sync_global_emissions_on_stats_update ::
  "timestamptz \<Rightarrow> c_user_stat option \<Rightarrow> c_user_stat \<Rightarrow> cdb \<Rightarrow> cdb" where
  "c_sync_global_emissions_on_stats_update now OLD NEW d =
     (let v_diff = cs_total_lbs NEW - (case OLD of Some r \<Rightarrow> cs_total_lbs r | None \<Rightarrow> 0)
      in if v_diff \<noteq> 0 then
           d\<lparr>c_global_emissions :=
                (c_global_emissions d)
                  \<lparr>cg_total_lbs := cg_total_lbs (c_global_emissions d) + v_diff,
                   cg_total_lbs_saved := cg_total_lbs_saved (c_global_emissions d) + v_diff,
                   cg_total_actions := cg_total_actions (c_global_emissions d)
                      + (cs_action_count NEW
                         - (case OLD of Some r \<Rightarrow> cs_action_count r | None \<Rightarrow> 0)),
                   cg_last_updated := now\<rparr>\<rparr>
         else d)"

definition c_sync_user_stats_on_action_insert ::
  "timestamptz \<Rightarrow> c_user_action \<Rightarrow> cdb \<Rightarrow> cdb \<times> (c_user_stat option \<times> c_user_stat) option" where
  "c_sync_user_stats_on_action_insert now NEW d =
     (case c_v_lbs (c_action_templates d) NEW of
        None \<Rightarrow> (d, None)
      | Some v \<Rightarrow>
          (if v > 0 then
             (let (stats', OLD_stat, NEW_stat) =
                    c_upsert_user_stats (c_user_id NEW) v now (c_user_stats d)
              in (d\<lparr>c_user_stats := stats'\<rparr>, Some (OLD_stat, NEW_stat)))
           else (d, None)))"

text \<open>
  \<open>INSERT INTO user_actions\<close> with \<open>trigger_sync_user_stats AFTER INSERT\<close>, whose
  statement on \<open>user_stats\<close> is followed by the trigger of that table.
\<close>

definition c_insert_user_action :: "timestamptz \<Rightarrow> c_user_action \<Rightarrow> cdb \<Rightarrow> cdb" where
  "c_insert_user_action now a d =
     (let (d', written) =
            c_sync_user_stats_on_action_insert now a (d\<lparr>c_user_actions := c_user_actions d @ [a]\<rparr>)
      in (case written of
            None \<Rightarrow> d'
          | Some (OLD_stat, NEW_stat) \<Rightarrow>
              c_sync_global_emissions_on_stats_update now OLD_stat NEW_stat d'))"

definition c_sum_user_stats :: "cdb \<Rightarrow> numeric" where
  "c_sum_user_stats d = sum_list (map cs_total_lbs (c_user_stats d))"

subsection \<open>The pseudocode of \<open>log_emission_atomic\<close>\<close>

text \<open>
  The database function behind \<open>logEmission\<close> is given in the repository as pseudocode,
  over the tables \<open>user_actions\<close>, \<open>user_stats\<close>, \<open>global_emissions\<close> and
  \<open>emission_events\<close>; \<open>notified\<close> collects the payloads of \<open>NOTIFY\<close>.  The function is
  one transaction, so it is one step of the state.
\<close>

record e_user_action =
  e_action_id :: uuid
  e_user_id :: uuid
  e_emissions_saved_lbs :: numeric
  e_verified :: bool

record e_user_stat =
  es_user_id :: uuid
  es_total_emissions_lbs :: numeric
  es_action_count :: int

record e_global_emissions_row =
  eg_total_lbs_saved :: numeric
  eg_total_actions :: int

record emission_event =
  ev_action_id :: uuid
  ev_user_id :: uuid
  ev_emissions_lbs :: numeric
  ev_user_total_lbs :: numeric
  ev_global_total_lbs :: numeric

record edb =
  e_user_actions :: "e_user_action list"
  e_user_stats :: "e_user_stat list"
  e_global_emissions :: e_global_emissions_row
  emission_events :: "emission_event list"
  notified :: "emission_event list"

record log_result =
  lr_user_total :: "numeric option"
  lr_global_total :: numeric
  lr_is_duplicate :: bool

text \<open>\<open>SELECT total_emissions_lbs FROM user_stats WHERE user_id = u\<close>.\<close>

definition select_user_total :: "uuid \<Rightarrow> e_user_stat list \<Rightarrow> numeric option" where
  "select_user_total u rs =
     (case filter (\<lambda>r. es_user_id r = u) rs of
        [] \<Rightarrow> None | r # _ \<Rightarrow> Some (es_total_emissions_lbs r))"

definition existing_result :: "uuid \<Rightarrow> edb \<Rightarrow> log_result" where
  "existing_result u d =
     \<lparr>lr_user_total = select_user_total u (e_user_stats d),
      lr_global_total = eg_total_lbs_saved (e_global_emissions d),
      lr_is_duplicate = True\<rparr>"

fun e_upsert_user_stats :: "uuid \<Rightarrow> numeric \<Rightarrow> e_user_stat list \<Rightarrow> e_user_stat list" where
  "e_upsert_user_stats u x [] =
     [\<lparr>es_user_id = u, es_total_emissions_lbs = x, es_action_count = 1\<rparr>]"
| "e_upsert_user_stats u x (r # rs) =
     (if es_user_id r = u
      then r\<lparr>es_total_emissions_lbs := es_total_emissions_lbs r + x,
             es_action_count := es_action_count r + 1\<rparr> # rs
      else r # e_upsert_user_stats u x rs)"

text \<open>
  \<open>INSERT INTO user_actions ... ON CONFLICT (action_id) DO NOTHING\<close>, with the flag
  \<open>action_not_inserted\<close> of the pseudocode.
\<close>

definition insert_on_conflict_do_nothing ::
  "e_user_action \<Rightarrow> e_user_action list \<Rightarrow> e_user_action list \<times> bool" where
  "insert_on_conflict_do_nothing a rows =
     (if e_action_id a \<in> set (map e_action_id rows) then (rows, True) else (rows @ [a], False))"

definition log_emission_atomic :: "uuid \<Rightarrow> uuid \<Rightarrow> numeric \<Rightarrow> edb \<Rightarrow> log_result \<times> edb" where
  "log_emission_atomic aid uid emissions_lbs d =
     (if filter (\<lambda>a. e_action_id a = aid) (e_user_actions d) \<noteq> [] then
        (existing_result uid d, d)
      else
        (let (actions', action_not_inserted) =
               insert_on_conflict_do_nothing
                 \<lparr>e_action_id = aid, e_user_id = uid, e_emissions_saved_lbs = emissions_lbs,
                  e_verified = True\<rparr> (e_user_actions d)
         in if action_not_inserted then (existing_result uid d, d)
            else
              (let stats' = e_upsert_user_stats uid emissions_lbs (e_user_stats d);
                   user_total = select_user_total uid stats';
                   global' = (e_global_emissions d)
                     \<lparr>eg_total_lbs_saved := eg_total_lbs_saved (e_global_emissions d) + emissions_lbs,
                      eg_total_actions := eg_total_actions (e_global_emissions d) + 1\<rparr>;
                   global_total = eg_total_lbs_saved global';
                   event = \<lparr>ev_action_id = aid, ev_user_id = uid, ev_emissions_lbs = emissions_lbs,
                            ev_user_total_lbs = (case user_total of Some t \<Rightarrow> t | None \<Rightarrow> 0),
                            ev_global_total_lbs = global_total\<rparr>
               in (\<lparr>lr_user_total = user_total, lr_global_total = global_total,
                     lr_is_duplicate = False\<rparr>,
                   d\<lparr>e_user_actions := actions',
                     e_user_stats := stats',
                     e_global_emissions := global',
                     emission_events := emission_events d @ [event],
                     notified := notified d @ [event]\<rparr>))))"

definition e_sum_user_stats :: "edb \<Rightarrow> numeric" where
  "e_sum_user_stats d = sum_list (map es_total_emissions_lbs (e_user_stats d))"

subsection \<open>The TypeScript services \<open>logEmission\<close> and \<open>logActionFullSpec\<close>\<close>

text \<open>
  A JavaScript \<open>number\<close> is \<open>NaN\<close> or a value (the infinities are left out); an object
  property that is absent is \<open>None\<close>, which is what reading it yields: \<open>undefined\<close>.
  The text made by \<open>toString()\<close> from a number is represented by the number.
  A call of an \<open>async\<close> function ends with a returned value or with a rejection.
\<close>

datatype js_number = NaN | Num rat

fun js_less_zero :: "js_number \<Rightarrow> bool" where
  "js_less_zero NaN = False"
| "js_less_zero (Num x) = (x < 0)"

text \<open>\<open>!s\<close> for a string property: true when it is absent or the empty string.\<close>

fun js_not :: "string option \<Rightarrow> bool" where
  "js_not None = True"
| "js_not (Some s) = (s = [])"

datatype js_error = Error string | TypeError string | PostgrestError string

fun error_message :: "js_error \<Rightarrow> string" where
  "error_message (Error m) = m"
| "error_message (TypeError m) = m"
| "error_message (PostgrestError m) = m"

datatype 'a outcome = Returned 'a | Rejected js_error

record emission_log_request =
  rq_action_id :: "string option"
  rq_user_id :: "string option"
  rq_emissions_lbs :: "js_number option"
  rq_action_type :: "string option"
  rq_quantity :: "js_number option"
  rq_unit :: "string option"

record emission_log_response =
  rs_success :: bool
  rs_action_id :: "string option"
  rs_user_id :: "string option"
  rs_emissions_lbs :: js_number
  rs_user_total_lbs :: js_number
  rs_global_total_lbs :: js_number
  rs_is_duplicate :: bool
  rs_message :: string

text \<open>
  \<open>supabase.rpc(name, args)\<close> runs a database function and resolves to \<open>{data, error}\<close>.
  The database functions called here are not defined in the sources, so the call is a
  parameter \<open>rpc\<close> that maps the arguments and the database to the reply and the new
  database.
\<close>

record log_emission_args =
  p_action_id :: string
  p_user_id :: string
  p_emissions_lbs :: js_number
  p_action_type :: string
  p_quantity :: "js_number option"
  p_unit :: string

record log_emission_row =
  row_success :: bool
  row_action_id :: string
  row_user_id :: string
  row_emissions_lbs :: js_number
  row_user_total_lbs :: js_number
  row_global_total_lbs :: js_number
  row_is_duplicate :: bool
  row_message :: string

datatype 'r rpc_reply = Rpc_error string | Rpc_data "'r list option"

text \<open>
  Reading a property that the validation has shown to be present; the default is never
  used on those paths.
\<close>

definition present :: "'a \<Rightarrow> 'a option \<Rightarrow> 'a" where
  "present dflt x = (case x of None \<Rightarrow> dflt | Some v \<Rightarrow> v)"

text \<open>\<open>s || dflt\<close> for a string property, \<open>q || null\<close> for a number property.\<close>

definition or_string :: "string option \<Rightarrow> string \<Rightarrow> string" where
  "or_string s dflt = (if js_not s then dflt else present dflt s)"

definition or_null :: "js_number option \<Rightarrow> js_number option" where
  "or_null q = (case q of Some (Num x) \<Rightarrow> (if x = 0 then None else Some (Num x)) | _ \<Rightarrow> None)"

text \<open>
  The \<open>try\<close> block of \<open>logEmission\<close>: \<open>Inl\<close> is the value thrown, with the database as
  it is at that moment.
\<close>

definition logEmission_try ::
  "(log_emission_args \<Rightarrow> 'db \<Rightarrow> log_emission_row rpc_reply \<times> 'db)
     \<Rightarrow> emission_log_request \<Rightarrow> 'db \<Rightarrow> (js_error + emission_log_response) \<times> 'db" where
  "logEmission_try rpc request d =
     (if js_not (rq_action_id request) \<or> js_not (rq_user_id request)
         \<or> rq_emissions_lbs request = None
      then (Inl (Error ''Missing required fields: action_id, user_id, emissions_lbs''), d)
      else if js_less_zero (present NaN (rq_emissions_lbs request))
      then (Inl (Error ''emissions_lbs must be non-negative''), d)
      else
        (let (reply, d') =
               rpc \<lparr>p_action_id = present [] (rq_action_id request),
                    p_user_id = present [] (rq_user_id request),
                    p_emissions_lbs = present NaN (rq_emissions_lbs request),
                    p_action_type = or_string (rq_action_type request) ''verified_action'',
                    p_quantity = or_null (rq_quantity request),
                    p_unit = or_string (rq_unit request) ''lbs''\<rparr> d
         in (case reply of
               Rpc_error e \<Rightarrow> (Inl (PostgrestError e), d')
             | Rpc_data None \<Rightarrow> (Inl (Error ''No data returned from log_emission_atomic''), d')
             | Rpc_data (Some []) \<Rightarrow>
                 (Inl (Error ''No data returned from log_emission_atomic''), d')
             | Rpc_data (Some (result # _)) \<Rightarrow>
                 (Inr \<lparr>rs_success = row_success result,
                       rs_action_id = Some (row_action_id result),
                       rs_user_id = Some (row_user_id result),
                       rs_emissions_lbs = row_emissions_lbs result,
                       rs_user_total_lbs = row_user_total_lbs result,
                       rs_global_total_lbs = row_global_total_lbs result,
                       rs_is_duplicate = row_is_duplicate result,
                       rs_message = row_message result\<rparr>, d'))))"

text \<open>
  The \<open>catch\<close> block builds the failure response; its field
  \<open>emissions_lbs: request.emissions_lbs.toString()\<close> reads a property of
  \<open>undefined\<close> when the request has no \<open>emissions_lbs\<close>, which throws a \<open>TypeError\<close>
  out of the function.
\<close>

definition logEmission_catch :: "emission_log_request \<Rightarrow> js_error \<Rightarrow> emission_log_response outcome" where
  "logEmission_catch request error =
     (case rq_emissions_lbs request of
        None \<Rightarrow> Rejected (TypeError ''Cannot read properties of undefined (reading 'toString')'')
      | Some n \<Rightarrow>
          Returned \<lparr>rs_success = False,
                    rs_action_id = rq_action_id request,
                    rs_user_id = rq_user_id request,
                    rs_emissions_lbs = n,
                    rs_user_total_lbs = Num 0,
                    rs_global_total_lbs = Num 0,
                    rs_is_duplicate = False,
                    rs_message = (if error_message error = [] then ''Failed to log emission''
                                  else error_message error)\<rparr>)"

definition logEmission ::
  "(log_emission_args \<Rightarrow> 'db \<Rightarrow> log_emission_row rpc_reply \<times> 'db)
     \<Rightarrow> emission_log_request \<Rightarrow> 'db \<Rightarrow> emission_log_response outcome \<times> 'db" where
  "logEmission rpc request d =
     (case logEmission_try rpc request d of
        (Inr response, d') \<Rightarrow> (Returned response, d')
      | (Inl error, d') \<Rightarrow> (logEmission_catch request error, d'))"

text \<open>
  \<open>logActionFullSpec\<close>: \<open>lbs\<close> is a number or a string, and \<open>request.lbs < 0\<close> converts
  a string with JavaScript's \<open>ToNumber\<close>, a parameter here.  Its \<open>catch\<close> block reads no
  property of \<open>lbs\<close>.
\<close>

datatype lbs_value = Lbs_number js_number | Lbs_string string

record action_log_request =
  al_action_id :: "string option"
  al_user_id :: "string option"
  al_lbs :: "lbs_value option"
  al_logged_at :: "string option"
  al_verified :: "bool option"
  al_username :: "string option"

datatype status = success | error

record action_log_response =
  ar_status :: status
  ar_action_id :: "string option"
  ar_user_total_lbs :: js_number
  ar_global_total_lbs :: js_number
  ar_is_duplicate :: bool
  ar_timestamp :: string

record log_action_args =
  q_action_id :: string
  q_user_id :: string
  q_lbs :: lbs_value
  q_logged_at :: string
  q_username :: "string option"
  q_performed_by :: string

record log_action_row =
  lrow_success :: bool
  lrow_action_id :: string
  lrow_user_total_lbs :: js_number
  lrow_global_total_lbs :: js_number
  lrow_is_duplicate :: bool

fun lbs_less_zero :: "(string \<Rightarrow> js_number) \<Rightarrow> lbs_value \<Rightarrow> bool" where
  "lbs_less_zero to_number (Lbs_number n) = js_less_zero n"
| "lbs_less_zero to_number (Lbs_string s) = js_less_zero (to_number s)"

definition logActionFullSpec_try ::
  "(string \<Rightarrow> js_number) \<Rightarrow> (log_action_args \<Rightarrow> 'db \<Rightarrow> log_action_row rpc_reply \<times> 'db)
     \<Rightarrow> string \<Rightarrow> action_log_request \<Rightarrow> 'db \<Rightarrow> (js_error + action_log_response) \<times> 'db" where
  "logActionFullSpec_try to_number rpc now request d =
     (if js_not (al_action_id request) \<or> js_not (al_user_id request)
         \<or> al_lbs request = None \<or> js_not (al_logged_at request)
      then (Inl (Error ''Missing required fields: action_id, user_id, lbs, logged_at''), d)
      else if al_verified request \<noteq> Some True
      then (Inl (Error ''verified must be true to count''), d)
      else if lbs_less_zero to_number (present (Lbs_number NaN) (al_lbs request))
      then (Inl (Error ''lbs must be non-negative''), d)
      else
        (let (reply, d') =
               rpc \<lparr>q_action_id = present [] (al_action_id request),
                    q_user_id = present [] (al_user_id request),
                    q_lbs = present (Lbs_number NaN) (al_lbs request),
                    q_logged_at = present [] (al_logged_at request),
                    q_username = (if js_not (al_username request) then None
                                  else al_username request),
                    q_performed_by = ''system''\<rparr> d
         in (case reply of
               Rpc_error e \<Rightarrow> (Inl (PostgrestError e), d')
             | Rpc_data None \<Rightarrow> (Inl (Error ''No data returned from log_action_atomic''), d')
             | Rpc_data (Some []) \<Rightarrow>
                 (Inl (Error ''No data returned from log_action_atomic''), d')
             | Rpc_data (Some (result # _)) \<Rightarrow>
                 (Inr \<lparr>ar_status = (if lrow_success result then success else error),
                       ar_action_id = Some (lrow_action_id result),
                       ar_user_total_lbs = lrow_user_total_lbs result,
                       ar_global_total_lbs = lrow_global_total_lbs result,
                       ar_is_duplicate = lrow_is_duplicate result,
                       ar_timestamp = now\<rparr>, d'))))"

definition logActionFullSpec ::
  "(string \<Rightarrow> js_number) \<Rightarrow> (log_action_args \<Rightarrow> 'db \<Rightarrow> log_action_row rpc_reply \<times> 'db)
     \<Rightarrow> string \<Rightarrow> action_log_request \<Rightarrow> 'db \<Rightarrow> action_log_response outcome \<times> 'db" where
  "logActionFullSpec to_number rpc now request d =
     (case logActionFullSpec_try to_number rpc now request d of
        (Inr response, d') \<Rightarrow> (Returned response, d')
      | (Inl _, d') \<Rightarrow>
          (Returned \<lparr>ar_status = error, ar_action_id = al_action_id request,
                     ar_user_total_lbs = Num 0, ar_global_total_lbs = Num 0,
                     ar_is_duplicate = False, ar_timestamp = now\<rparr>, d'))"

subsection \<open>Concrete states and inputs\<close>

text \<open>The first action of a user, in the schema of the migration.\<close>

definition m_first_action :: m_user_action where
  "m_first_action =
     \<lparr>m_action_id = ''a1'', m_user_id = ''user1'', m_custom_emissions_saved = None,
      m_emissions_saved_lbs = Some 10, m_verified = True\<rparr>"

text \<open>Two unverified actions of one user, in the schema of the migration.\<close>

definition m_unverified_action :: "uuid \<Rightarrow> numeric \<Rightarrow> m_user_action" where
  "m_unverified_action aid x =
     \<lparr>m_action_id = aid, m_user_id = ''user1'', m_custom_emissions_saved = None,
      m_emissions_saved_lbs = Some x, m_verified = False\<rparr>"

text \<open>
  Scenario A in the verification schema: three registered users, no actions, no
  statistics, the global row at 0; a verified event is an action that is inserted and then
  marked verified.
\<close>

definition empty_db :: db where
  "empty_db =
     \<lparr>users = [\<lparr>user_id = ''user1'', username = Some ''user1''\<rparr>,
               \<lparr>user_id = ''user2'', username = Some ''user2''\<rparr>,
               \<lparr>user_id = ''user3'', username = Some ''user3''\<rparr>],
      user_actions = [], user_stats = [],
      global_emissions = \<lparr>total_lbs_saved = 0, total_actions = 0, ge_last_updated = 0\<rparr>,
      sync_check_log = []\<rparr>"

definition submit_verified :: "timestamptz \<Rightarrow> uuid \<Rightarrow> uuid \<Rightarrow> numeric \<Rightarrow> db \<Rightarrow> db" where
  "submit_verified now aid u x d =
     (case insert_user_action
             \<lparr>action_id = aid, ua_user_id = u, emissions_saved_lbs = x, verified = False,
              created_at = now, verified_at = None\<rparr> d of
        Inl _ \<Rightarrow> d
      | Inr d' \<Rightarrow> verify_user_action now aid d')"

definition scenario_A :: db where
  "scenario_A =
     submit_verified 3 ''a3'' ''user3'' (104 / 10)
       (submit_verified 2 ''a2'' ''user2'' (103 / 10)
          (submit_verified 1 ''a1'' ''user1'' (102 / 10) empty_db))"

text \<open>The requests that \<open>logEmission\<close> rejects in its validation.\<close>

definition malformed :: "emission_log_request \<Rightarrow> bool" where
  "malformed request =
     (js_not (rq_action_id request) \<or> js_not (rq_user_id request)
      \<or> (case rq_emissions_lbs request of None \<Rightarrow> True | Some n \<Rightarrow> js_less_zero n))"

definition request_without_quantity :: emission_log_request where
  "request_without_quantity =
     \<lparr>rq_action_id = Some ''a1'', rq_user_id = Some ''user1'', rq_emissions_lbs = None,
      rq_action_type = None, rq_quantity = None, rq_unit = None\<rparr>"

text \<open>
  A state of the verification schema in which the global total (20) has drifted from the
  sum of the user totals (20.5).
\<close>

definition drifted_db :: db where
  "drifted_db =
     \<lparr>users = [\<lparr>user_id = ''user1'', username = Some ''user1''\<rparr>,
               \<lparr>user_id = ''user2'', username = Some ''user2''\<rparr>],
      user_actions = [],
      user_stats = [\<lparr>us_user_id = ''user1'', total_emissions_lbs = 102 / 10, action_count = 1,
                      last_updated = 1\<rparr>,
                    \<lparr>us_user_id = ''user2'', total_emissions_lbs = 103 / 10, action_count = 1,
                      last_updated = 2\<rparr>],
      global_emissions = \<lparr>total_lbs_saved = 20, total_actions = 2, ge_last_updated = 2\<rparr>,
      sync_check_log = []\<rparr>"




text \<open>
  States of \<open>FINAL_SIMPLE_SOLUTION.sql\<close>: a template that saves nothing and one that
  saves 0.01 kg; no actions; then three actions of user1 with the second template, and,
  separately, one action of user1 with the first.
\<close>

definition f_templates :: "action_template list" where
  "f_templates = [\<lparr>at_id = ''t0'', emissions_saved = 0\<rparr>,
                  \<lparr>at_id = ''t1'', emissions_saved = 1 / 100\<rparr>]"

definition f_initial :: fdb where
  "f_initial =
     \<lparr>f_user_actions = [], action_templates = f_templates, profiles = [],
      f_user_stats = [],
      f_global_emissions =
        \<lparr>fg_total_lbs = 0, fg_total_lbs_saved = Some 0, fg_last_updated = 0\<rparr>\<rparr>"

definition template_action :: "uuid \<Rightarrow> f_user_action" where
  "template_action t =
     \<lparr>f_user_id = ''user1'', custom_emissions_saved = None, action_template_id = Some t\<rparr>"


definition f_zero_only :: fdb where
  "f_zero_only = f_insert_user_action 1 (template_action ''t0'') f_initial"



text \<open>A state in which the total of user1 has four decimals: 10.2345 lbs.\<close>

definition precise_db :: db where
  "precise_db =
     empty_db\<lparr>user_stats :=
       [\<lparr>us_user_id = ''user1'', total_emissions_lbs = 102345 / 10000, action_count = 1,
         last_updated = 5\<rparr>]\<rparr>"


section \<open>Properties\<close>

subsection \<open>Rounding\<close>

lemma floor_numeral_div: "\<lfloor>(numeral a :: rat) / numeral b\<rfloor> = numeral a div numeral b"
  using floor_divide_of_int_eq[of "numeral a" "numeral b", where ?'a = rat] by simp

lemma floor_of_int_plus_half: "\<lfloor>(of_int k :: rat) + 1 / 2\<rfloor> = k"
  by linarith

text \<open>A value with at most \<open>d\<close> fractional digits is stored as it is.\<close>

lemma pg_round_of_int_div: "pg_round d (of_int k / 10 ^ d) = of_int k / 10 ^ d"
proof (cases "k < 0")
  case True
  have "\<lfloor>(of_int (- k) :: rat) + 1 / 2\<rfloor> = - k" by (rule floor_of_int_plus_half)
  with True show ?thesis by (simp add: pg_round_def divide_less_0_iff)
next
  case False
  have "\<lfloor>(of_int k :: rat) + 1 / 2\<rfloor> = k" by (rule floor_of_int_plus_half)
  with False show ?thesis by (simp add: pg_round_def divide_less_0_iff)
qed

subsection \<open>The sum of the user totals in the verification schema\<close>

lemma sum_upsert_user_stats:
  "sum_list (map total_emissions_lbs (upsert_user_stats u x now rs))
     = sum_list (map total_emissions_lbs rs) + x"
  by (induction rs) simp_all

lemma global_sync_trigger_function_sum:
  assumes "total_lbs_saved (global_emissions d) = sum_user_stats d"
  shows "total_lbs_saved (global_emissions (global_sync_trigger_function now OLD NEW d))
           = sum_user_stats (global_sync_trigger_function now OLD NEW d)"
  using assms
  by (simp add: global_sync_trigger_function_def sum_user_stats_def sum_upsert_user_stats)

lemma fold_trigger_sum:
  assumes "total_lbs_saved (global_emissions d) = sum_user_stats d"
  shows "total_lbs_saved (global_emissions
            (fold (\<lambda>OLD. global_sync_trigger_function now OLD (f OLD)) as d))
           = sum_user_stats (fold (\<lambda>OLD. global_sync_trigger_function now OLD (f OLD)) as d)"
  using assms
  by (induction as arbitrary: d) (simp_all add: global_sync_trigger_function_sum)

lemma verify_user_action_sum:
  assumes "total_lbs_saved (global_emissions d) = sum_user_stats d"
  shows "total_lbs_saved (global_emissions (verify_user_action now aid d))
           = sum_user_stats (verify_user_action now aid d)"
  unfolding verify_user_action_def
  by (rule fold_trigger_sum) (use assms in \<open>simp add: sum_user_stats_def\<close>)

lemma insert_user_action_sum:
  assumes "total_lbs_saved (global_emissions d) = sum_user_stats d"
    and "insert_user_action a d = Inr d'"
  shows "total_lbs_saved (global_emissions d') = sum_user_stats d'"
  using assms
  by (auto simp: insert_user_action_def sum_user_stats_def split: if_splits)

lemma sync_global_emissions_from_user_stats_sum:
  "total_lbs_saved (global_emissions (snd (sync_global_emissions_from_user_stats now d)))
     = sum_user_stats (snd (sync_global_emissions_from_user_stats now d))"
  by (simp add: sync_global_emissions_from_user_stats_def Let_def sum_user_stats_def)

subsection \<open>The triggers of the migration\<close>

lemma c_upsert_sum:
  "c_upsert_user_stats u x now rs = (rs', OLD, NEW) \<Longrightarrow>
     sum_list (map cs_total_lbs rs') = sum_list (map cs_total_lbs rs) + x
     \<and> cs_total_lbs NEW - (case OLD of Some r \<Rightarrow> cs_total_lbs r | None \<Rightarrow> 0) = x"
  by (induction rs arbitrary: rs' OLD NEW) (auto simp: Let_def split: if_splits prod.splits)

lemma c_insert_user_action_sum:
  assumes "cg_total_lbs_saved (c_global_emissions d) = c_sum_user_stats d"
  shows "cg_total_lbs_saved (c_global_emissions (c_insert_user_action now a d))
           = c_sum_user_stats (c_insert_user_action now a d)"
proof (cases "c_v_lbs (c_action_templates d) a")
  case None
  then show ?thesis using assms
    by (simp add: c_insert_user_action_def c_sync_user_stats_on_action_insert_def c_sum_user_stats_def)
next
  case (Some v)
  show ?thesis
  proof (cases "v > 0")
    case False
    then show ?thesis using assms Some
      by (simp add: c_insert_user_action_def c_sync_user_stats_on_action_insert_def c_sum_user_stats_def)
  next
    case True
    obtain rs' OLD NEW where up: "c_upsert_user_stats (c_user_id a) v now (c_user_stats d) = (rs', OLD, NEW)"
      by (cases "c_upsert_user_stats (c_user_id a) v now (c_user_stats d)") auto
    from c_upsert_sum [OF up] True assms Some up show ?thesis
      by (simp add: c_insert_user_action_def c_sync_user_stats_on_action_insert_def
          c_sum_user_stats_def c_sync_global_emissions_on_stats_update_def Let_def)
  qed
qed

text \<open>
  Claim C1: in every quiescent state the global total equals the sum of the per-user
  totals, and every operation that updates the aggregates preserves the equality.

  The triggers of the verification schema, of \<open>FINAL_SIMPLE_SOLUTION.sql\<close> and of the
  later migration (\<open>c_insert_user_action_sum\<close>), the backfill and the reconciliation
  preserve it (see the lemmas of the respective subsections).  The triggers of the
  migration \<open>20251115050327\<close> do not: the first action of a user is stored by the
  \<open>INSERT\<close> arm of the upsert, for which the \<open>AFTER UPDATE\<close> trigger on \<open>user_stats\<close>
  does not fire, so the 10 lbs reach the user's total and never the global total.
\<close>

theorem C1_migration_first_action_not_in_global_total:
  "m_sum_user_stats (m_insert_user_action 1 m_first_action m_initial) = 10
   \<and> m_global_total (m_insert_user_action 1 m_first_action m_initial) = Some 0"
  by (simp add: m_insert_user_action_def m_first_action_def m_initial_def
      sync_user_stats_on_action_insert_def trigger_sync_global_emissions_on_stats_update_def
      m_sum_user_stats_def m_global_total_def coalesce3_def)

text \<open>
  Claim C4: an event contributes to the per-user and global aggregates only once it is
  verified; no insertion path adds the quantity of an unverified event to \<open>user_stats\<close>
  or \<open>global_emissions\<close>.

  The verification schema keeps to it (\<open>insert_user_action_aggregates\<close>,
  \<open>global_sync_trigger_function_unverified\<close> below).  The insert trigger of the migration
  never reads \<open>verified\<close>: two unverified actions of 5 and 3 lbs bring the user's total to
  8, and the second one, which updates the row of \<open>user_stats\<close>, adds its 3 lbs to the
  global total.
\<close>

theorem C4_migration_counts_unverified_actions:
  "m_sum_user_stats (m_insert_user_action 1 (m_unverified_action ''a1'' 5) m_initial) = 5
   \<and> m_sum_user_stats (m_insert_user_action 2 (m_unverified_action ''a2'' 3)
         (m_insert_user_action 1 (m_unverified_action ''a1'' 5) m_initial)) = 8
   \<and> m_global_total (m_insert_user_action 2 (m_unverified_action ''a2'' 3)
         (m_insert_user_action 1 (m_unverified_action ''a1'' 5) m_initial)) = Some 3"
  by (simp add: m_insert_user_action_def m_unverified_action_def m_initial_def
      sync_user_stats_on_action_insert_def trigger_sync_global_emissions_on_stats_update_def
      m_sum_user_stats_def m_global_total_def coalesce3_def
      sync_global_emissions_on_stats_update_def Let_def)

subsection \<open>Verified-only aggregation in the verification schema\<close>

lemma insert_user_action_aggregates:
  "insert_user_action a d = Inr d' \<Longrightarrow>
     user_stats d' = user_stats d \<and> global_emissions d' = global_emissions d"
  by (auto simp: insert_user_action_def split: if_splits)

lemma global_sync_trigger_function_unverified:
  "\<not> verified NEW \<Longrightarrow> global_sync_trigger_function now OLD NEW d = d"
  by (simp add: global_sync_trigger_function_def)

lemma global_sync_trigger_function_already_verified:
  "verified OLD \<Longrightarrow> global_sync_trigger_function now OLD NEW d = d"
  by (simp add: global_sync_trigger_function_def)

subsection \<open>Scenario A\<close>

lemma pg_round_scenario_A:
  "pg_round 4 (51 / 5) = 51 / 5" "pg_round 4 (103 / 10) = 103 / 10" "pg_round 4 (52 / 5) = 52 / 5"
  "pg_round 2 (51 / 5) = 51 / 5" "pg_round 2 (103 / 10) = 103 / 10" "pg_round 2 (52 / 5) = 52 / 5"
  by (simp_all add: pg_round_def floor_numeral_div)

text \<open>
  Claim C9: from the empty state, the verified events +10.2 (user1), +10.3 (user2) and
  +10.4 (user3), submitted one after the other, give a global total of exactly 30.9, and
  the leaderboard lists user3, user2, user1 with the ranks 1, 2, 3.
\<close>

theorem C9_scenario_A:
  "total_lbs_saved (global_emissions scenario_A) = 309 / 10
   \<and> get_leaderboard 100 scenario_A =
       Inr [\<lparr>rank = 1, le_user_id = ''user3'', le_username = Some ''user3'',
              le_total_emissions_lbs = 104 / 10, le_action_count = 1,
              le_last_update_timestamp = 3\<rparr>,
            \<lparr>rank = 2, le_user_id = ''user2'', le_username = Some ''user2'',
              le_total_emissions_lbs = 103 / 10, le_action_count = 1,
              le_last_update_timestamp = 2\<rparr>,
            \<lparr>rank = 3, le_user_id = ''user1'', le_username = Some ''user1'',
              le_total_emissions_lbs = 102 / 10, le_action_count = 1,
              le_last_update_timestamp = 1\<rparr>]"
  by (simp add: scenario_A_def submit_verified_def empty_db_def insert_user_action_def
      verify_user_action_def set_verified_def global_sync_trigger_function_def
      pg_round_scenario_A get_leaderboard_def ordered_ranked_users_def ranked_users_def
      max_verified_at_def
      List.map_filter_def order_by_key_def leaderboard_row_def enumerate_eq_zip)

subsection \<open>Validation in the TypeScript services\<close>

lemma logEmission_malformed_no_write:
  "malformed request \<Longrightarrow> snd (logEmission rpc request d) = d"
  by (auto simp: malformed_def logEmission_def logEmission_try_def present_def
      split: option.splits)

lemma logEmission_malformed_failure:
  "malformed request \<Longrightarrow> rq_emissions_lbs request = Some n \<Longrightarrow>
     \<exists>r. fst (logEmission rpc request d) = Returned r \<and> \<not> rs_success r"
  by (auto simp: malformed_def logEmission_def logEmission_try_def logEmission_catch_def
      present_def split: option.splits)

lemma logActionFullSpec_malformed:
  assumes "js_not (al_action_id request) \<or> js_not (al_user_id request)
           \<or> (case al_lbs request of None \<Rightarrow> True | Some v \<Rightarrow> lbs_less_zero to_number v)"
  shows "\<exists>r. logActionFullSpec to_number rpc now request d = (Returned r, d)
             \<and> ar_status r = error"
  using assms
  by (auto simp: logActionFullSpec_def logActionFullSpec_try_def present_def
      split: option.splits)

text \<open>
  Claim C8: a submission with malformed input (missing idempotency key, missing user id,
  missing or negative quantity) is rejected before any write: the call returns a failure
  result, no event is inserted and no aggregate changes.

  No malformed request reaches the database (\<open>logEmission_malformed_no_write\<close>), and a
  failure response is returned whenever the request has a quantity
  (\<open>logEmission_malformed_failure\<close>); \<open>logActionFullSpec\<close> returns an error response for
  each of them.  For a request without quantity, \<open>logEmission\<close> returns nothing: its
  \<open>catch\<close> block throws while it builds the failure response, and the call is rejected
  with a \<open>TypeError\<close>.
\<close>

theorem C8_logEmission_missing_quantity_throws:
  "logEmission rpc request_without_quantity d
     = (Rejected (TypeError ''Cannot read properties of undefined (reading 'toString')''), d)"
  by (simp add: request_without_quantity_def logEmission_def logEmission_try_def
      logEmission_catch_def)

subsection \<open>Reconciliation in the verification schema\<close>

lemma hourly_sync_check_in_sync:
  assumes "sum_user_stats d = total_lbs_saved (global_emissions d)"
  shows "snd (hourly_sync_check now d) = d \<and> snd (fst (hourly_sync_check now d)) = []"
  using assms
  by (simp add: hourly_sync_check_def sync_global_emissions_from_user_stats_def Let_def)

text \<open>
  Claim C3, as the code has it: whenever the reconciler finds that the sum \<open>S\<close> of the
  user totals differs from the global total \<open>G\<close> under exact comparison, it sets the
  global total to exactly \<open>S\<close> (always: there is no auto-correction switch), and it
  reports the mismatch: \<open>sync_global_emissions_from_user_stats\<close> returns
  \<open>(was_in_sync = false, user_stats_sum = S, global_total = G, fixed = true)\<close>, and
  \<open>hourly_sync_check\<close> raises exactly one warning and returns a JSON object, both with
  \<open>S\<close>, \<open>G\<close> and the discrepancy \<open>|S - G|\<close> rounded to two decimals.  It writes no
  correction record: the audit table is left as it was.
\<close>

theorem C3_reconciler_corrects_and_warns:
  assumes "sum_user_stats d \<noteq> total_lbs_saved (global_emissions d)"
  shows "sync_global_emissions_from_user_stats now d =
           (\<lparr>was_in_sync = False, user_stats_sum = sum_user_stats d,
             global_total = total_lbs_saved (global_emissions d), fixed = True\<rparr>,
            d\<lparr>global_emissions :=
                (global_emissions d)\<lparr>total_lbs_saved := sum_user_stats d,
                                     ge_last_updated := now\<rparr>\<rparr>)
         \<and> snd (hourly_sync_check now d) = snd (sync_global_emissions_from_user_stats now d)
         \<and> sync_check_log (snd (hourly_sync_check now d)) = sync_check_log d
         \<and> snd (fst (hourly_sync_check now d)) =
             [\<lparr>w_user_stats_sum = pg_round 2 (sum_user_stats d),
               w_global_total = pg_round 2 (total_lbs_saved (global_emissions d)),
               w_discrepancy =
                 pg_round 2 \<bar>sum_user_stats d - total_lbs_saved (global_emissions d)\<bar>,
               w_fixed = True\<rparr>]
         \<and> js_user_stats_sum (fst (fst (hourly_sync_check now d)))
             = pg_round 2 (sum_user_stats d)
         \<and> js_global_total (fst (fst (hourly_sync_check now d)))
             = pg_round 2 (total_lbs_saved (global_emissions d))
         \<and> js_discrepancy (fst (fst (hourly_sync_check now d)))
             = pg_round 2 \<bar>sum_user_stats d - total_lbs_saved (global_emissions d)\<bar>
         \<and> \<not> js_was_in_sync (fst (fst (hourly_sync_check now d)))
         \<and> js_fixed (fst (fst (hourly_sync_check now d)))"
  using assms
  by (simp add: hourly_sync_check_def sync_global_emissions_from_user_stats_def Let_def)

theorem C3_reconciler_corrects_and_warns_witness:
  "sum_user_stats drifted_db \<noteq> total_lbs_saved (global_emissions drifted_db)
   \<and> total_lbs_saved (global_emissions (snd (hourly_sync_check 7 drifted_db))) = 205 / 10
   \<and> js_discrepancy (fst (fst (hourly_sync_check 7 drifted_db))) = 1 / 2
   \<and> length (snd (fst (hourly_sync_check 7 drifted_db))) = 1"
proof -
  have h: "sum_user_stats drifted_db \<noteq> total_lbs_saved (global_emissions drifted_db)"
    by (simp add: sum_user_stats_def drifted_db_def)
  have s: "sum_user_stats drifted_db = 205 / 10"
    by (simp add: sum_user_stats_def drifted_db_def)
  have g: "total_lbs_saved (global_emissions drifted_db) = 20"
    by (simp add: drifted_db_def)
  have r: "pg_round 2 (1 / 2) = 1 / 2"
    by (simp add: pg_round_def floor_numeral_div)
  show ?thesis
    using h C3_reconciler_corrects_and_warns [OF h, of 7] by (simp add: s g r)
qed

text \<open>
  Claim C3 as stated (every detected mismatch produces exactly one correction record)
  fails on the drifted state: the mismatch is detected and corrected, and the audit table
  is still empty.
\<close>

theorem C3_no_correction_record_counterexample:
  "\<not> js_was_in_sync (fst (fst (hourly_sync_check 7 drifted_db)))
   \<and> total_lbs_saved (global_emissions (snd (hourly_sync_check 7 drifted_db))) = 205 / 10
   \<and> sync_check_log (snd (hourly_sync_check 7 drifted_db)) = []"
  by (simp add: hourly_sync_check_def sync_global_emissions_from_user_stats_def drifted_db_def
      sum_user_stats_def Let_def)

subsection \<open>Duplicate submissions to \<open>log_emission_atomic\<close>\<close>

lemma log_emission_atomic_existing:
  "aid \<in> set (map e_action_id (e_user_actions d)) \<Longrightarrow>
     log_emission_atomic aid uid x d = (existing_result uid d, d)"
  by (auto simp: log_emission_atomic_def filter_empty_conv)



lemma sum_e_upsert_user_stats:
  "sum_list (map es_total_emissions_lbs (e_upsert_user_stats u x rs))
     = sum_list (map es_total_emissions_lbs rs) + x"
  by (induction rs) simp_all

lemma log_emission_atomic_fresh:
  assumes "aid \<notin> set (map e_action_id (e_user_actions d))"
  shows "e_sum_user_stats (snd (log_emission_atomic aid uid x d)) = e_sum_user_stats d + x
     \<and> eg_total_lbs_saved (e_global_emissions (snd (log_emission_atomic aid uid x d)))
         = eg_total_lbs_saved (e_global_emissions d) + x
     \<and> \<not> lr_is_duplicate (fst (log_emission_atomic aid uid x d))"
  using assms
  by (auto simp: log_emission_atomic_def insert_on_conflict_do_nothing_def Let_def
      filter_empty_conv e_sum_user_stats_def sum_e_upsert_user_stats)

lemma log_emission_atomic_sum:
  assumes "eg_total_lbs_saved (e_global_emissions d) = e_sum_user_stats d"
  shows "eg_total_lbs_saved (e_global_emissions (snd (log_emission_atomic aid uid x d)))
           = e_sum_user_stats (snd (log_emission_atomic aid uid x d))"
proof (cases "aid \<in> set (map e_action_id (e_user_actions d))")
  case True
  then show ?thesis using assms by (simp add: log_emission_atomic_existing)
next
  case False
  then show ?thesis using assms log_emission_atomic_fresh [of aid d uid x] by simp
qed




subsection \<open>The aggregates of \<open>FINAL_SIMPLE_SOLUTION.sql\<close>\<close>

lemma update_emission_totals_zero:
  "v_lbs (action_templates d) NEW = 0 \<Longrightarrow> update_emission_totals now NEW d = d"
  by (simp add: update_emission_totals_def)

lemma sum_f_upsert_user_stats:
  "sum_list (map total_lbs (f_upsert_user_stats u x now rs)) = sum_list (map total_lbs rs) + x"
  by (induction rs) simp_all

lemma total_lbs_copy_total_lbs: "map total_lbs (copy_total_lbs p rs) = map total_lbs rs"
  by (induction rs) (simp_all add: copy_total_lbs_def)

lemma ids_copy_total_lbs: "map fs_user_id (copy_total_lbs p rs) = map fs_user_id rs"
  by (induction rs) (simp_all add: copy_total_lbs_def)

lemma ids_copy_total_lbs_set: "fs_user_id ` set (copy_total_lbs p rs) = fs_user_id ` set rs"
  using ids_copy_total_lbs[of p rs] by (metis set_map)

lemma update_emission_totals_sum:
  assumes "fg_total_lbs (f_global_emissions d) = f_sum_user_stats d"
  shows "fg_total_lbs (f_global_emissions (update_emission_totals now NEW d))
           = f_sum_user_stats (update_emission_totals now NEW d)"
  using assms
  by (simp add: update_emission_totals_def Let_def f_sum_user_stats_def total_lbs_copy_total_lbs sum_f_upsert_user_stats)










lemma ids_set_user_total:
  "fs_user_id ` set (set_user_total now (v, x) rs) = insert v (fs_user_id ` set rs)"
  by (induction rs) auto

lemma ids_fold_set_user_total:
  "fs_user_id ` set (fold (set_user_total now) ps rs) = fst ` set ps \<union> fs_user_id ` set rs"
proof (induction ps arbitrary: rs)
  case Nil
  then show ?case by simp
next
  case (Cons p ps)
  obtain v x where p: "p = (v, x)" by (cases p)
  show ?case using Cons.IH[of "set_user_total now (v, x) rs"]
    by (simp add: p ids_set_user_total)
qed

lemma keys_user_totals:
  "fst ` set (user_totals d) = f_user_id ` {ua \<in> set (f_user_actions d). in_backfill ua}"
proof -
  have "fst ` set (user_totals d) = set (map fst (user_totals d))" by simp
  also have "map fst (user_totals d) = remdups (map f_user_id (filter in_backfill (f_user_actions d)))"
    by (simp add: user_totals_def Let_def comp_def)
  also have "set \<dots> = f_user_id ` {ua \<in> set (f_user_actions d). in_backfill ua}"
    by auto
  finally show ?thesis .
qed

lemma backfill_totals_rows:
  "fs_user_id ` set (f_user_stats (backfill_totals now d))
     = fs_user_id ` set (f_user_stats d)
       \<union> f_user_id ` {ua \<in> set (f_user_actions d). in_backfill ua}"
  by (simp add: backfill_totals_def backfill_user_stats_def Let_def ids_copy_total_lbs_set ids_fold_set_user_total keys_user_totals Un_commute)













subsection \<open>The concrete states of \<open>FINAL_SIMPLE_SOLUTION.sql\<close>\<close>





lemma pg_round_zero: "pg_round d 0 = 0"
proof -
  have "\<lfloor>(1::rat) / 2\<rfloor> = 0" by linarith
  then show ?thesis by (simp add: pg_round_def)
qed

lemma f_user_id_template_action: "f_user_id (template_action t) = ''user1''"
  by (simp add: template_action_def)






lemma in_backfill_template_action: "in_backfill (template_action t)"
  by (simp add: in_backfill_def template_action_def)




lemma v_lbs_t0: "v_lbs f_templates (template_action ''t0'') = 0"
  by (simp add: v_lbs_def template_action_def template_lbs_def f_templates_def pg_round_zero)

lemma f_zero_only_eq: "f_zero_only = f_initial\<lparr>f_user_actions := [template_action ''t0'']\<rparr>"
  by (simp add: f_zero_only_def f_insert_user_action_def update_emission_totals_def f_initial_def v_lbs_t0)

lemma case_lbs_t0: "case_lbs f_templates (template_action ''t0'') = 0"
  by (simp add: case_lbs_def template_action_def template_lbs_def f_templates_def)

lemma f_insert_user_action_sum:
  assumes "fg_total_lbs (f_global_emissions d) = f_sum_user_stats d"
  shows "fg_total_lbs (f_global_emissions (f_insert_user_action now a d))
           = f_sum_user_stats (f_insert_user_action now a d)"
  unfolding f_insert_user_action_def
  by (rule update_emission_totals_sum) (use assms in \<open>simp add: f_sum_user_stats_def\<close>)

subsection \<open>Backfill\<close>

lemma backfill_users_list:
  "f_user_id ` {ua \<in> set acts. in_backfill ua} = set (map f_user_id (filter in_backfill acts))"
  by auto




subsection \<open>Actions of quantity 0\<close>

lemma not_in_backfill_v_lbs: "\<not> in_backfill ua \<Longrightarrow> v_lbs ts ua = 0"
  by (auto simp: in_backfill_def v_lbs_def split: option.splits)

text \<open>
  Claim C10, as the code has it: for an inserted action whose computed quantity is 0, the
  trigger \<open>update_emission_totals\<close> leaves all state unchanged: no row of \<open>user_stats\<close>
  is created, no user total and not the global total is modified.  So the trigger gives no
  aggregate to a user whose only events have quantity 0.  \<open>backfill_totals\<close> does: after
  it, the users with a row are those who had one and those with an action that has a
  positive custom value or a template, whatever the template yields.  An action outside
  that set has quantity 0.
\<close>

theorem C10_zero_quantity_actions:
  "(v_lbs (action_templates d) NEW = 0 \<longrightarrow>
      update_emission_totals now NEW d = d
      \<and> f_insert_user_action now NEW d = d\<lparr>f_user_actions := f_user_actions d @ [NEW]\<rparr>)
   \<and> fs_user_id ` set (f_user_stats (backfill_totals now d))
       = fs_user_id ` set (f_user_stats d)
         \<union> f_user_id ` {ua \<in> set (f_user_actions d). in_backfill ua}
   \<and> (\<not> in_backfill ua \<longrightarrow> v_lbs ts ua = 0)"
  using backfill_totals_rows [of now d] not_in_backfill_v_lbs [of ua ts]
  by (simp add: f_insert_user_action_def update_emission_totals_def)

theorem C10_zero_quantity_actions_witness:
  "v_lbs (action_templates f_initial) (template_action ''t0'') = 0
   \<and> f_insert_user_action 1 (template_action ''t0'') f_initial
       = f_initial\<lparr>f_user_actions := [template_action ''t0'']\<rparr>
   \<and> fs_user_id ` set (f_user_stats (backfill_totals 9 f_zero_only)) = {''user1''}
   \<and> \<not> in_backfill \<lparr>f_user_id = ''user1'', custom_emissions_saved = Some 0,
                      action_template_id = None\<rparr>
   \<and> v_lbs f_templates \<lparr>f_user_id = ''user1'', custom_emissions_saved = Some 0,
                        action_template_id = None\<rparr> = 0"
proof -
  have h1: "v_lbs (action_templates f_initial) (template_action ''t0'') = 0"
    by (simp add: f_initial_def v_lbs_t0)
  have h2: "\<not> in_backfill \<lparr>f_user_id = ''user1'', custom_emissions_saved = Some 0,
                             action_template_id = None\<rparr>"
    by (simp add: in_backfill_def)
  have a: "f_user_actions f_zero_only = [template_action ''t0'']"
    by (simp add: f_zero_only_eq)
  have s: "f_user_stats f_zero_only = []"
    by (simp add: f_zero_only_eq f_initial_def)
  have i: "f_user_actions f_initial = []"
    by (simp add: f_initial_def)
  have u: "f_user_id ` {ua \<in> set (f_user_actions f_zero_only). in_backfill ua} = {''user1''}"
    by (simp only: backfill_users_list)
      (simp add: a in_backfill_template_action f_user_id_template_action)
  show ?thesis
    using h1 h2
      C10_zero_quantity_actions [of f_initial "template_action ''t0''" 1
        "\<lparr>f_user_id = ''user1'', custom_emissions_saved = Some 0, action_template_id = None\<rparr>"
        f_templates]
      C10_zero_quantity_actions [of f_zero_only "template_action ''t0''" 9
        "\<lparr>f_user_id = ''user1'', custom_emissions_saved = Some 0, action_template_id = None\<rparr>"
        f_templates]
    by (simp add: u s i)
qed

text \<open>
  Claim C10 as stated (a user whose only events have quantity 0 never acquires an
  aggregate) fails for an action with a template that saves nothing: the trigger creates no
  row, the backfill creates one with total 0.
\<close>

theorem C10_backfill_creates_zero_row_counterexample:
  "v_lbs (action_templates f_initial) (template_action ''t0'') = 0
   \<and> f_user_stats f_zero_only = []
   \<and> f_user_stats (backfill_totals 9 f_zero_only)
       = [\<lparr>fs_user_id = ''user1'', total_lbs = 0, fs_total_emissions_lbs = Some 0,
            fs_last_updated = 9\<rparr>]"
  by (simp add: f_zero_only_eq f_initial_def v_lbs_t0 backfill_totals_def
      backfill_user_stats_def user_totals_def in_backfill_template_action
      f_user_id_template_action case_lbs_t0 pg_round_zero copy_total_lbs_def Let_def)

subsection \<open>The leaderboard\<close>








lemma ranked_positive:
  "r \<in> set (ranked_users d) \<Longrightarrow> ru_total_emissions_lbs r > 0"
  by (auto simp: ranked_users_def)

lemma in_ranked_users:
  "r \<in> set (ranked_users d) \<Longrightarrow>
     \<exists>us \<in> set (user_stats d). us_user_id us = ru_user_id r
        \<and> total_emissions_lbs us = ru_total_emissions_lbs r \<and> 0 < total_emissions_lbs us"
  by (auto simp: ranked_users_def)

lemma in_leaderboard_rows:
  assumes "e \<in> set (map leaderboard_row (enumerate n rs))"
  shows "\<exists>r \<in> set rs. le_user_id e = ru_user_id r
        \<and> le_total_emissions_lbs e = pg_round 2 (ru_total_emissions_lbs r)"
proof -
  from assms obtain p where p: "p \<in> set (enumerate n rs)" "e = leaderboard_row p"
    by auto
  from p(1) have "snd p \<in> set (map snd (enumerate n rs))" by (simp del: map_snd_enumerate)
  then have "snd p \<in> set rs" by (simp only: map_snd_enumerate)
  then show ?thesis using p(2) by (intro bexI [of _ "snd p"]) (simp_all add: leaderboard_row_def)
qed

text \<open>The error of rounding to \<open>d\<close> decimals is at most half a unit of the last digit.\<close>

lemma round_half_error: "\<bar>of_int \<lfloor>y + 1 / 2\<rfloor> - y\<bar> \<le> 1 / 2" for y :: rat
  by linarith

lemma pg_round_error: "\<bar>pg_round d x - x\<bar> \<le> 1 / (2 * 10 ^ d)"
proof -
  define p :: rat where "p = 10 ^ d"
  have pos: "p > 0" by (simp add: p_def)
  have scale: "\<bar>n - y\<bar> \<le> 1 / 2 \<Longrightarrow> \<bar>n / p - y / p\<bar> \<le> 1 / (2 * p)" for n y :: rat
  proof -
    assume a: "\<bar>n - y\<bar> \<le> 1 / 2"
    have "\<bar>n / p - y / p\<bar> = \<bar>n - y\<bar> / p"
      using pos by (simp add: diff_divide_distrib [symmetric])
    also have "\<dots> \<le> (1 / 2) / p"
      by (intro divide_right_mono) (use a pos in simp_all)
    finally show ?thesis by simp
  qed
  show ?thesis
  proof (cases "x < 0")
    case True
    have "\<bar>of_int \<lfloor>(- x) * p + 1 / 2\<rfloor> / p - ((- x) * p) / p\<bar> \<le> 1 / (2 * p)"
      by (rule scale) (rule round_half_error)
    moreover have "((- x) * p) / p = - x" using pos by simp
    ultimately have "\<bar>of_int \<lfloor>(- x) * p + 1 / 2\<rfloor> / p + x\<bar> \<le> 1 / (2 * p)" by simp
    then have "\<bar>- (of_int \<lfloor>(- x) * p + 1 / 2\<rfloor> / p) - x\<bar> \<le> 1 / (2 * p)"
      by (simp add: abs_minus_commute [of "- _" x] )
    with True show ?thesis by (simp add: pg_round_def p_def)
  next
    case False
    have "\<bar>of_int \<lfloor>x * p + 1 / 2\<rfloor> / p - (x * p) / p\<bar> \<le> 1 / (2 * p)"
      by (rule scale) (rule round_half_error)
    moreover have "(x * p) / p = x" using pos by simp
    ultimately have "\<bar>of_int \<lfloor>x * p + 1 / 2\<rfloor> / p - x\<bar> \<le> 1 / (2 * p)" by simp
    with False show ?thesis by (simp add: pg_round_def p_def)
  qed
qed















text \<open>
  Claim C7, as the code has it for the leaderboard: every entry that \<open>get_leaderboard\<close>
  returns carries the stored total of its user rounded to two decimals
  (\<open>ROUND(total_emissions_lbs, 2)\<close>); the value delivered differs from the stored decimal
  by at most 0.005 and equals it when the stored decimal has at most two decimals.
\<close>

theorem C7_leaderboard_total_rounded:
  assumes "get_leaderboard limit_count d = Inr es" and "e \<in> set es"
  shows "\<exists>us \<in> set (user_stats d).
           us_user_id us = le_user_id e \<and> 0 < total_emissions_lbs us
           \<and> le_total_emissions_lbs e = pg_round 2 (total_emissions_lbs us)
           \<and> \<bar>le_total_emissions_lbs e - total_emissions_lbs us\<bar> \<le> 1 / 200
           \<and> (\<forall>k. total_emissions_lbs us = of_int k / 100 \<longrightarrow>
                 le_total_emissions_lbs e = total_emissions_lbs us)"
proof -
  from assms have "e \<in> set (map leaderboard_row (enumerate 1 (ordered_ranked_users d)))"
    by (auto simp: get_leaderboard_def split: if_splits dest: in_set_takeD)
  then obtain r where r: "r \<in> set (ordered_ranked_users d)" "le_user_id e = ru_user_id r"
      "le_total_emissions_lbs e = pg_round 2 (ru_total_emissions_lbs r)"
    using in_leaderboard_rows by blast
  from r(1) have "r \<in> set (ranked_users d)" by (simp add: ordered_ranked_users_def)
  then obtain us where us: "us \<in> set (user_stats d)" "us_user_id us = ru_user_id r"
      "total_emissions_lbs us = ru_total_emissions_lbs r" "0 < total_emissions_lbs us"
    using in_ranked_users by blast
  have err: "\<bar>pg_round 2 (total_emissions_lbs us) - total_emissions_lbs us\<bar> \<le> 1 / 200"
    using pg_round_error [of 2 "total_emissions_lbs us"] by simp
  have ex: "\<forall>k. total_emissions_lbs us = of_int k / 100 \<longrightarrow>
              pg_round 2 (total_emissions_lbs us) = total_emissions_lbs us"
  proof (intro allI impI)
    fix k assume "total_emissions_lbs us = of_int k / 100"
    then have "total_emissions_lbs us = of_int k / 10 ^ 2" by simp
    then show "pg_round 2 (total_emissions_lbs us) = total_emissions_lbs us"
      by (simp only: pg_round_of_int_div)
  qed
  show ?thesis
    using us r err ex by (intro bexI [of _ us]) simp_all
qed

theorem C7_leaderboard_total_rounded_witness:
  "get_leaderboard 100 precise_db =
     Inr [\<lparr>rank = 1, le_user_id = ''user1'', le_username = Some ''user1'',
            le_total_emissions_lbs = 1023 / 100, le_action_count = 1,
            le_last_update_timestamp = 5\<rparr>]
   \<and> (\<exists>us \<in> set (user_stats precise_db).
         us_user_id us = ''user1'' \<and> 0 < total_emissions_lbs us
         \<and> 1023 / 100 = pg_round 2 (total_emissions_lbs us)
         \<and> \<bar>1023 / 100 - total_emissions_lbs us\<bar> \<le> 1 / 200)"
proof -
  let ?e = "\<lparr>rank = 1, le_user_id = ''user1'', le_username = Some ''user1'',
             le_total_emissions_lbs = 1023 / 100, le_action_count = 1,
             le_last_update_timestamp = 5\<rparr>"
  have h1: "get_leaderboard 100 precise_db = Inr [?e]"
    by (simp add: precise_db_def empty_db_def get_leaderboard_def
        ordered_ranked_users_def ranked_users_def max_verified_at_def List.map_filter_def
        order_by_key_def leaderboard_row_def enumerate_eq_zip pg_round_def floor_numeral_div)
  have h2: "?e \<in> set [?e]" by simp
  show ?thesis
    using h1 C7_leaderboard_total_rounded [OF h1 h2] by auto
qed

text \<open>
  Claim C7 as stated (the value delivered to a caller equals the stored exact decimal,
  with no rounding) fails for a stored total of 10.2345 lbs: the leaderboard entry carries
  10.23.
\<close>

theorem C7_rounded_total_counterexample:
  "map total_emissions_lbs (user_stats precise_db) = [102345 / 10000]
   \<and> get_leaderboard 100 precise_db =
       Inr [\<lparr>rank = 1, le_user_id = ''user1'', le_username = Some ''user1'',
              le_total_emissions_lbs = 1023 / 100, le_action_count = 1,
              le_last_update_timestamp = 5\<rparr>]"
  by (simp add: precise_db_def empty_db_def get_leaderboard_def
      ordered_ranked_users_def ranked_users_def max_verified_at_def List.map_filter_def
      order_by_key_def leaderboard_row_def enumerate_eq_zip pg_round_def floor_numeral_div)

end
